theory Spec2Isabelle
  imports Complex_Main "HOL-Library.Sublist"
begin

section \<open>The search page of the Typesense search theme\<close>

text \<open>
  A shallow embedding of \<^verbatim>\<open>src/theme/SearchPage/index.js\<close>: the reducer that owns the
  search-result state, the handler of the search helper's \<^verbatim>\<open>result\<close> event (which shapes
  raw hits into result items), the intersection-observer callback that drives infinite
  scroll, \<^verbatim>\<open>makeSearch\<close> and the effect that watches \<^verbatim>\<open>lastPage\<close>.

  JavaScript values are modelled by the types the page gives them. A field that is a
  number or \<^verbatim>\<open>null\<close> is an \<open>int option\<close> (\<open>None\<close> is \<^verbatim>\<open>null\<close>); page counts are
  small non-negative integers, so the IEEE rounding of very large numbers is left out.
  A value that may be \<^verbatim>\<open>undefined\<close>, \<^verbatim>\<open>null\<close> or a string is a \<open>jsval\<close>.
\<close>

subsection \<open>JavaScript values\<close>

datatype jsval = Undefined | Null | Str string

text \<open>ToBoolean: \<^verbatim>\<open>undefined\<close>, \<^verbatim>\<open>null\<close> and the empty string are falsy.\<close>

fun truthy :: "jsval \<Rightarrow> bool" where
  "truthy Undefined = False"
| "truthy Null = False"
| "truthy (Str s) = (s \<noteq> [])"

text \<open>ToNumber on a number-or-null: \<^verbatim>\<open>null\<close> converts to \<open>0\<close>.\<close>

fun toNumber :: "int option \<Rightarrow> int" where
  "toNumber None = 0"
| "toNumber (Some n) = n"

text \<open>ToBoolean on a number-or-null: \<^verbatim>\<open>null\<close> and \<open>0\<close> are falsy.\<close>

fun truthyNum :: "int option \<Rightarrow> bool" where
  "truthyNum None = False"
| "truthyNum (Some n) = (n \<noteq> 0)"

subsection \<open>Data model\<close>

text \<open>
  A result item as built at lines 223--230. \<^verbatim>\<open>title\<close> is whatever \<^verbatim>\<open>titles.pop()\<close>
  returns, the elements of \<^verbatim>\<open>breadcrumbs\<close> are what survived the filter.
\<close>

record resultItem =
  title :: jsval
  url :: string
  summary :: string
  breadcrumbs :: "jsval list"

text \<open>The state of lines 128--136; the payload of an \<^verbatim>\<open>update\<close> has the same fields.\<close>

record searchResultState =
  items :: "resultItem list"
  query :: "string option"
  totalResults :: "int option"
  totalPages :: "int option"
  lastPage :: "int option"
  hasMore :: "bool option"
  loading :: "bool option"

definition initialSearchResultState :: searchResultState where
  "initialSearchResultState =
     \<lparr>items = [], query = None, totalResults = None, totalPages = None,
      lastPage = None, hasMore = None, loading = None\<rparr>"

text \<open>
  The actions the page dispatches, \<^verbatim>\<open>{type, value}\<close>. \<open>Other\<close> is any \<^verbatim>\<open>type\<close> that
  reaches the \<^verbatim>\<open>default\<close> branch of the switch.
\<close>

datatype action = Reset | Loading | Update searchResultState | Advance | Other string

subsection \<open>The reducer (lines 138--171)\<close>

text \<open>
  The reducer is a closure over \<^verbatim>\<open>searchQuery\<close>, the live query of the current render,
  which is its first argument here. \<^verbatim>\<open>searchQuery !== state.query\<close> is strict
  inequality, so a \<^verbatim>\<open>null\<close> payload query never equals a string.
  \<^verbatim>\<open>{...state, items: e}\<close> is the payload with its \<^verbatim>\<open>items\<close> replaced.
\<close>

fun reducer :: "string \<Rightarrow> searchResultState \<Rightarrow> action \<Rightarrow> searchResultState" where
  "reducer searchQuery prevState Reset = initialSearchResultState"
| "reducer searchQuery prevState Loading = prevState\<lparr>loading := Some True\<rparr>"
| "reducer searchQuery prevState (Update state) =
     (if Some searchQuery \<noteq> query state then prevState
      else state\<lparr>items :=
             (if lastPage state = Some 0 then items state
              else items prevState @ items state)\<rparr>)"
| "reducer searchQuery prevState Advance =
     (let hasMore' = toNumber (totalPages prevState) > toNumber (lastPage prevState) + 1
      in prevState\<lparr>lastPage :=
                     (if hasMore' then Some (toNumber (lastPage prevState) + 1)
                      else lastPage prevState),
                   hasMore := Some hasMore'\<rparr>)"
| "reducer searchQuery prevState (Other t) = prevState"

subsection \<open>Result shaping (lines 204--232)\<close>

text \<open>
  \<^verbatim>\<open>String.prototype.replace\<close> with a global regular expression that is a plain literal:
  the string is scanned from the left and every non-overlapping occurrence of \<open>pat\<close>
  is replaced by \<open>rep\<close>. Both patterns used below are non-empty.
\<close>

fun replaceAll :: "string \<Rightarrow> string \<Rightarrow> string \<Rightarrow> string" where
  "replaceAll pat rep [] = []"
| "replaceAll pat rep (c # cs) =
     (if prefix pat (c # cs) then rep @ replaceAll pat rep (drop (length pat - 1) cs)
      else c # replaceAll pat rep cs)"

definition highlightPreTag :: string where
  "highlightPreTag = ''<algolia-docsearch-suggestion--highlight>''"

definition highlightPostTag :: string where
  "highlightPostTag = ''</algolia-docsearch-suggestion--highlight>''"

definition spanOpen :: string where
  \<open>spanOpen = ''<span class="search-result-match">''\<close>

definition spanClose :: string where
  "spanClose = ''</span>''"

definition sanitizeValue :: "string \<Rightarrow> string" where
  "sanitizeValue v = replaceAll highlightPostTag spanClose (replaceAll highlightPreTag spanOpen v)"

text \<open>
  A raw hit, typed as the backend sends it. \<^verbatim>\<open>_highlightResult\<close> is an object keyed by
  attribute name; an entry is missing or \<^verbatim>\<open>null\<close> (\<open>None\<close>) or an object with a string
  \<^verbatim>\<open>value\<close>. \<^verbatim>\<open>_snippetResult\<close> may be missing (\<open>None\<close>), and is then defaulted to
  the empty object by the destructuring pattern.
\<close>

record highlight =
  hl_value :: string

record hit =
  hit_url :: string
  highlightResult :: "string \<rightharpoonup> highlight"
  snippetResult :: "(string \<rightharpoonup> highlight) option"

text \<open>
  The parts of a parsed URL. The platform's \<^verbatim>\<open>URL\<close> constructor is not part of this
  repository: it is the parameter \<open>parseURL\<close> of the functions below, and \<open>None\<close> stands
  for the \<^verbatim>\<open>TypeError\<close> it throws on a string that is not a URL.
\<close>

record urlParts =
  pathname :: string
  search :: string
  hash :: string

text \<open>
  The exceptions of the page: the \<^verbatim>\<open>TypeError\<close> of the platform, and the \<^verbatim>\<open>Error\<close> of the
  search helper for a facet that was not declared, which names the facet.
\<close>

datatype error = TypeError | FacetNotDeclared string

definition digitChar :: "nat \<Rightarrow> char" where
  "digitChar d = char_of (48 + d)"

fun numberToString :: "nat \<Rightarrow> string" where
  "numberToString n =
     (if n < 10 then [digitChar n] else numberToString (n div 10) @ [digitChar (n mod 10)])"

declare numberToString.simps [simp del]

text \<open>The template literal \<^verbatim>\<open>`hierarchy.lvl${lvl}`\<close>.\<close>

definition levelKey :: "nat \<Rightarrow> string" where
  "levelKey lvl = ''hierarchy.lvl'' @ numberToString lvl"

definition levels :: "nat list" where
  "levels = [0, 1, 2, 3, 4, 5, 6]"

text \<open>Lines 218--221: map every level to its sanitized value or \<^verbatim>\<open>null\<close>, keep the truthy ones.\<close>

definition levelTitle :: "hit \<Rightarrow> nat \<Rightarrow> jsval" where
  "levelTitle h lvl =
     (case highlightResult h (levelKey lvl) of
        None \<Rightarrow> Null
      | Some hr \<Rightarrow> Str (sanitizeValue (hl_value hr)))"

definition titlesOf :: "hit \<Rightarrow> jsval list" where
  "titlesOf h = filter truthy (map (levelTitle h) levels)"

text \<open>
  \<^verbatim>\<open>Array.prototype.pop\<close>: the removed last element and the array that is left;
  on an empty array the result is \<^verbatim>\<open>undefined\<close> and the array stays empty.
\<close>

definition pop :: "jsval list \<Rightarrow> jsval \<times> jsval list" where
  "pop xs = (if xs = [] then (Undefined, []) else (last xs, butlast xs))"

text \<open>
  The callback of \<^verbatim>\<open>hits.map\<close>. The object literal evaluates \<^verbatim>\<open>titles.pop()\<close> first,
  so \<^verbatim>\<open>breadcrumbs\<close> is the array after the pop.
\<close>

definition shapeHit :: "(string \<Rightarrow> urlParts option) \<Rightarrow> hit \<Rightarrow> error + resultItem" where
  "shapeHit parseURL h =
     (let snippet = (case snippetResult h of None \<Rightarrow> Map.empty | Some m \<Rightarrow> m)
      in case parseURL (hit_url h) of
           None \<Rightarrow> Inl TypeError
         | Some u \<Rightarrow>
             (let (t, titles) = pop (titlesOf h)
              in Inr \<lparr>title = t,
                      url = pathname u @ hash u,
                      summary = (case snippet ''content'' of
                                   Some c \<Rightarrow> sanitizeValue (hl_value c) @ ''...''
                                 | None \<Rightarrow> []),
                      breadcrumbs = titles\<rparr>))"

text \<open>\<^verbatim>\<open>hits.map\<close>: an exception in the callback leaves the whole map.\<close>

fun mapHits :: "(string \<Rightarrow> urlParts option) \<Rightarrow> hit list \<Rightarrow> error + resultItem list" where
  "mapHits parseURL [] = Inr []"
| "mapHits parseURL (h # hs) =
     (case shapeHit parseURL h of
        Inl e \<Rightarrow> Inl e
      | Inr i \<Rightarrow> (case mapHits parseURL hs of Inl e \<Rightarrow> Inl e | Inr is \<Rightarrow> Inr (i # is)))"

subsection \<open>The handler of the \<^verbatim>\<open>result\<close> event (lines 196--247)\<close>

text \<open>The \<^verbatim>\<open>hits\<close> field of a response: an array of hits, or any value that is not an array.\<close>

datatype hitsField = HitsArray "hit list" | NotAnArray

record searchResults =
  res_query :: string
  hits :: hitsField
  page :: int
  nbHits :: int
  nbPages :: int

text \<open>\<^verbatim>\<open>hits instanceof Array\<close>, and the elements \<^verbatim>\<open>hits.map\<close> runs over when it is one.\<close>

fun instanceofArray :: "hitsField \<Rightarrow> bool" where
  "instanceofArray (HitsArray hs) = True"
| "instanceofArray NotAnArray = False"

fun elements :: "hitsField \<Rightarrow> hit list" where
  "elements (HitsArray hs) = hs"
| "elements NotAnArray = []"

text \<open>
  The handler returns the action it dispatches, or the exception that leaves it. After
  the guard \<^verbatim>\<open>hits\<close> is an array, so \<open>elements\<close> is only applied to one.
\<close>

definition resultHandler :: "(string \<Rightarrow> urlParts option) \<Rightarrow> searchResults \<Rightarrow> error + action" where
  "resultHandler parseURL results =
     (if res_query results = [] \<or> \<not> instanceofArray (hits results) then Inr Reset
      else (case mapHits parseURL (elements (hits results)) of
              Inl e \<Rightarrow> Inl e
            | Inr is \<Rightarrow>
                Inr (Update \<lparr>items = is,
                             query = Some (res_query results),
                             totalResults = Some (nbHits results),
                             totalPages = Some (nbPages results),
                             lastPage = Some (page results),
                             hasMore = Some (nbPages results > page results + 1),
                             loading = Some False\<rparr>)))"

subsection \<open>The intersection observer (lines 250--268)\<close>

text \<open>
  An entry as the callback reads it. The vertical position is a real number; the
  callback only compares positions.
\<close>

record observerEntry =
  isIntersecting :: bool
  boundingClientRect_y :: real

text \<open>
  The callback reads \<^verbatim>\<open>entries[0]\<close>, dispatches, and stores the position in
  \<^verbatim>\<open>prevY.current\<close>. It returns the dispatched actions and the new \<^verbatim>\<open>prevY.current\<close>;
  destructuring \<^verbatim>\<open>entries[0]\<close> of an empty array throws.
\<close>

definition observerCallback :: "real \<Rightarrow> observerEntry list \<Rightarrow> error + (action list \<times> real)" where
  "observerCallback prevY entries =
     (case entries of
        [] \<Rightarrow> Inl TypeError
      | e # _ \<Rightarrow>
          Inr ((if isIntersecting e \<and> prevY > boundingClientRect_y e then [Advance] else []),
               boundingClientRect_y e))"

text \<open>\<^verbatim>\<open>useRef(0)\<close>: the position stored before the first observation.\<close>

definition initialPrevY :: real where
  "initialPrevY = 0"

text \<open>The callback run on a sequence of observations, \<^verbatim>\<open>prevY\<close> threaded through.\<close>

fun observeAll :: "real \<Rightarrow> observerEntry list list \<Rightarrow> error + (action list list \<times> real)" where
  "observeAll prevY [] = Inr ([], prevY)"
| "observeAll prevY (entries # rest) =
     (case observerCallback prevY entries of
        Inl e \<Rightarrow> Inl e
      | Inr (acts, y) \<Rightarrow>
          (case observeAll y rest of
             Inl e \<Rightarrow> Inl e
           | Inr (actss, y') \<Rightarrow> Inr (acts # actss, y')))"

subsection \<open>\<^verbatim>\<open>makeSearch\<close> and the effect on \<^verbatim>\<open>lastPage\<close> (lines 288--303, 331--337)\<close>

text \<open>
  \<open>pageIndex\<close> is the parameter \<^verbatim>\<open>page\<close> of \<^verbatim>\<open>makeSearch\<close>.
  What \<^verbatim>\<open>makeSearch\<close> reads from its closure: the live query, the configured
  \<^verbatim>\<open>typesenseSearchParameters.filter_by\<close>, the locale, and the selected version of every
  docs plugin in the order of \<^verbatim>\<open>Object.entries\<close>.
\<close>

record searchContext =
  searchQuery :: string
  filter_by :: jsval
  currentLocale :: string
  searchVersions :: "(string \<times> string) list"

text \<open>
  What happens on the search helper, in order: the calls that returned and, if a call
  throws, the exception as the last entry.
\<close>

datatype helperEvent =
    AddDisjunctiveFacetRefinement string string
  | SetQuery string
  | SetPage int
  | Search
  | Throws error

text \<open>
  The helper is built at lines 188--194 with \<^verbatim>\<open>disjunctiveFacets: ['language']\<close>. The
  helper itself is a dependency of the page, not part of it; what is modelled of it is
  that \<^verbatim>\<open>addDisjunctiveFacetRefinement\<close> throws an \<^verbatim>\<open>Error\<close> for a facet that is not among
  the declared disjunctive facets, and that the other calls return.
\<close>

definition disjunctiveFacets :: "string list" where
  "disjunctiveFacets = [''language'']"

text \<open>
  Statements run in order until one throws: \<open>perform\<close> takes the calls a function makes
  one after the other and gives what happens on the helper.
\<close>

fun perform :: "helperEvent list \<Rightarrow> helperEvent list" where
  "perform [] = []"
| "perform (AddDisjunctiveFacetRefinement facet v # rest) =
     (if facet \<in> set disjunctiveFacets
      then AddDisjunctiveFacetRefinement facet v # perform rest
      else [Throws (FacetNotDeclared facet)])"
| "perform (Throws e # rest) = [Throws e]"
| "perform (c # rest) = c # perform rest"

definition makeSearch :: "searchContext \<Rightarrow> int \<Rightarrow> helperEvent list" where
  "makeSearch ctx pageIndex =
     perform
       ((if \<not> truthy (filter_by ctx) \<and> filter_by ctx \<noteq> Str []
         then [AddDisjunctiveFacetRefinement ''docusaurus_tag'' ''default'',
               AddDisjunctiveFacetRefinement ''language'' (currentLocale ctx)]
              @ map (\<lambda>(pluginId, searchVersion).
                       AddDisjunctiveFacetRefinement ''docusaurus_tag''
                         (''docs-'' @ pluginId @ ''-'' @ searchVersion))
                    (searchVersions ctx)
         else [])
        @ [SetQuery (searchQuery ctx), SetPage pageIndex, Search])"

text \<open>The body of the effect of lines 331--337.\<close>

definition lastPageEffect :: "searchContext \<Rightarrow> searchResultState \<Rightarrow> helperEvent list" where
  "lastPageEffect ctx s =
     (if \<not> truthyNum (lastPage s) \<or> lastPage s = Some 0 then []
      else makeSearch ctx (toNumber (lastPage s)))"

text \<open>
  Its dependency array is \<^verbatim>\<open>[searchResultState.lastPage]\<close>: after a render the body runs
  only if \<^verbatim>\<open>lastPage\<close> differs from the one of the previous render.
\<close>

definition lastPageEffectOnRender ::
    "searchContext \<Rightarrow> searchResultState \<Rightarrow> searchResultState \<Rightarrow> helperEvent list" where
  "lastPageEffectOnRender ctx prev cur =
     (if lastPage cur = lastPage prev then [] else lastPageEffect ctx cur)"

subsection \<open>Notions used to state the properties\<close>

text \<open>
  A level is non-empty for a hit when its highlight entry is there and its value is not
  the empty string.
\<close>

definition nonEmptyLevel :: "hit \<Rightarrow> nat \<Rightarrow> bool" where
  "nonEmptyLevel h lvl =
     (case highlightResult h (levelKey lvl) of None \<Rightarrow> False | Some hr \<Rightarrow> hl_value hr \<noteq> [])"

text \<open>What one observation dispatches, given the position stored by the one before.\<close>

definition dispatchedOn :: "real \<Rightarrow> observerEntry \<Rightarrow> action list" where
  "dispatchedOn prevY e =
     (if isIntersecting e \<and> boundingClientRect_y e < prevY then [Advance] else [])"

text \<open>
  The position stored before the \<open>i\<close>-th observation of a run: the initial
  \<^verbatim>\<open>prevY.current\<close> for the first, the position of the previous observation afterwards.
\<close>

definition prevYAt :: "real \<Rightarrow> observerEntry list list \<Rightarrow> nat \<Rightarrow> real" where
  "prevYAt y0 obs i = (if i = 0 then y0 else boundingClientRect_y (hd (obs ! (i - 1))))"

section \<open>Properties of the reducer\<close>

text \<open>
  C9. For every prior state, the \<^verbatim>\<open>loading\<close> action sets the loading flag to true and
  leaves items, query, totalResults, totalPages, lastPage and hasMore as they were.
\<close>

theorem loading_sets_flag_only:
  "reducer q s Loading = s\<lparr>loading := Some True\<rparr>
   \<and> loading (reducer q s Loading) = Some True
   \<and> items (reducer q s Loading) = items s
   \<and> query (reducer q s Loading) = query s
   \<and> totalResults (reducer q s Loading) = totalResults s
   \<and> totalPages (reducer q s Loading) = totalPages s
   \<and> lastPage (reducer q s Loading) = lastPage s
   \<and> hasMore (reducer q s Loading) = hasMore s"
  by simp

text \<open>
  C1. An \<^verbatim>\<open>update\<close> whose payload query differs from the live query is discarded: the
  reducer returns the prior state itself, so no field changes. Conversely an
  \<^verbatim>\<open>update\<close> that changes the state carries the live query.
\<close>

theorem stale_update_discarded:
  "(query p \<noteq> Some q \<longrightarrow> reducer q s (Update p) = s)
   \<and> (reducer q s (Update p) \<noteq> s \<longrightarrow> query p = Some q)"
  by simp

theorem stale_update_discarded_witness:
  "query \<lparr>items = [], query = Some ''bar'', totalResults = Some 7, totalPages = Some 1,
          lastPage = Some 0, hasMore = Some False, loading = Some False\<rparr> \<noteq> Some ''foo''
   \<and> reducer ''foo'' (initialSearchResultState\<lparr>loading := Some True\<rparr>)
        (Update \<lparr>items = [], query = Some ''bar'', totalResults = Some 7, totalPages = Some 1,
                 lastPage = Some 0, hasMore = Some False, loading = Some False\<rparr>)
      = initialSearchResultState\<lparr>loading := Some True\<rparr>
   \<and> reducer ''foo'' (initialSearchResultState\<lparr>loading := Some True\<rparr>)
        (Update \<lparr>items = [], query = Some ''foo'', totalResults = Some 7, totalPages = Some 1,
                 lastPage = Some 0, hasMore = Some False, loading = Some False\<rparr>)
      \<noteq> initialSearchResultState\<lparr>loading := Some True\<rparr>
   \<and> query \<lparr>items = [], query = Some ''foo'', totalResults = Some 7, totalPages = Some 1,
            lastPage = Some 0, hasMore = Some False, loading = Some False\<rparr> = Some ''foo''"
  using stale_update_discarded
    [of "\<lparr>items = [], query = Some ''bar'', totalResults = Some 7, totalPages = Some 1,
          lastPage = Some 0, hasMore = Some False, loading = Some False\<rparr>"
        "''foo''" "initialSearchResultState\<lparr>loading := Some True\<rparr>"]
    stale_update_discarded
    [of "\<lparr>items = [], query = Some ''foo'', totalResults = Some 7, totalPages = Some 1,
          lastPage = Some 0, hasMore = Some False, loading = Some False\<rparr>"
        "''foo''" "initialSearchResultState\<lparr>loading := Some True\<rparr>"]
  by (simp add: initialSearchResultState_def)

text \<open>
  C2. For an accepted \<^verbatim>\<open>update\<close> (payload query equal to the live query): with page index
  \<open>0\<close> the new items are exactly the payload's items; with a page index of at least
  \<open>1\<close> they are the prior items followed by the payload's items, so the prior items
  stay as a prefix.
\<close>

theorem update_items_replace_or_append:
  assumes "query p = Some q"
  shows "(lastPage p = Some 0 \<longrightarrow> items (reducer q s (Update p)) = items p)
         \<and> (\<forall>n\<ge>1. lastPage p = Some n \<longrightarrow>
               items (reducer q s (Update p)) = items s @ items p
               \<and> prefix (items s) (items (reducer q s (Update p))))"
  using assms by simp

theorem update_items_replace_or_append_witness:
  "items (reducer ''foo''
            \<lparr>items = [\<lparr>title = Str ''A'', url = ''/a'', summary = '''', breadcrumbs = []\<rparr>],
             query = Some ''foo'', totalResults = Some 2, totalPages = Some 2,
             lastPage = Some 1, hasMore = Some True, loading = Some False\<rparr>
            (Update \<lparr>items = [\<lparr>title = Str ''B'', url = ''/b'', summary = '''', breadcrumbs = []\<rparr>],
                     query = Some ''foo'', totalResults = Some 2, totalPages = Some 2,
                     lastPage = Some 1, hasMore = Some False, loading = Some False\<rparr>))
     = [\<lparr>title = Str ''A'', url = ''/a'', summary = '''', breadcrumbs = []\<rparr>,
        \<lparr>title = Str ''B'', url = ''/b'', summary = '''', breadcrumbs = []\<rparr>]
   \<and> items (reducer ''foo''
            \<lparr>items = [\<lparr>title = Str ''A'', url = ''/a'', summary = '''', breadcrumbs = []\<rparr>],
             query = Some ''foo'', totalResults = Some 2, totalPages = Some 2,
             lastPage = Some 1, hasMore = Some True, loading = Some False\<rparr>
            (Update \<lparr>items = [\<lparr>title = Str ''B'', url = ''/b'', summary = '''', breadcrumbs = []\<rparr>],
                     query = Some ''foo'', totalResults = Some 2, totalPages = Some 2,
                     lastPage = Some 0, hasMore = Some True, loading = Some False\<rparr>))
     = [\<lparr>title = Str ''B'', url = ''/b'', summary = '''', breadcrumbs = []\<rparr>]"
proof -
  let ?a = "\<lparr>title = Str ''A'', url = ''/a'', summary = '''', breadcrumbs = []\<rparr>"
  let ?b = "\<lparr>title = Str ''B'', url = ''/b'', summary = '''', breadcrumbs = []\<rparr>"
  let ?s = "\<lparr>items = [?a], query = Some ''foo'', totalResults = Some 2, totalPages = Some 2,
             lastPage = Some 1, hasMore = Some True, loading = Some False\<rparr>"
  let ?p1 = "\<lparr>items = [?b], query = Some ''foo'', totalResults = Some 2, totalPages = Some 2,
              lastPage = Some 1, hasMore = Some False, loading = Some False\<rparr>"
  let ?p0 = "\<lparr>items = [?b], query = Some ''foo'', totalResults = Some 2, totalPages = Some 2,
              lastPage = Some 0, hasMore = Some True, loading = Some False\<rparr>"
  have q1: "query ?p1 = Some ''foo''" and q0: "query ?p0 = Some ''foo''" by simp_all
  have "items (reducer ''foo'' ?s (Update ?p1)) = items ?s @ items ?p1"
    using update_items_replace_or_append [OF q1, of ?s] by simp
  moreover have "items (reducer ''foo'' ?s (Update ?p0)) = items ?p0"
    using update_items_replace_or_append [OF q0, of ?s] by simp
  ultimately show ?thesis by simp
qed

text \<open>
  C3. \<^verbatim>\<open>hasMore\<close> is derived as \<open>totalPages > lastPage + 1\<close> in both places that compute
  it. The result handler derives it from the response's \<open>(nbPages, page)\<close>, which are
  also the payload's \<open>totalPages\<close> and \<open>lastPage\<close>; the \<^verbatim>\<open>advance\<close> case re-derives it
  from the \<open>(totalPages, lastPage)\<close> of the state it is given (\<^verbatim>\<open>null\<close> counting as
  \<open>0\<close>, as JavaScript's arithmetic has it). This holds for all integers, so also at
  \<open>totalPages = 0\<close> and at \<open>lastPage = totalPages - 1\<close>. The state that results from
  accepting the handler's payload carries the three fields as the handler derived them,
  so there \<^verbatim>\<open>hasMore\<close> is true if and only if \<open>totalPages > lastPage + 1\<close>.

  As amended: in the state that \<^verbatim>\<open>advance\<close> returns the flag is the one derived before
  the step. There \<open>totalPages > lastPage + 1\<close> still implies that \<^verbatim>\<open>hasMore\<close> is true,
  but a true \<^verbatim>\<open>hasMore\<close> only says that \<open>lastPage\<close> was just incremented and that
  \<open>totalPages > lastPage\<close>: the flag stays true for the step that asks for the last
  page.
\<close>

theorem hasMore_derivation:
  "(resultHandler parseURL r = Inr (Update p) \<longrightarrow>
      totalPages p = Some (nbPages r) \<and> lastPage p = Some (page r)
      \<and> hasMore p = Some (nbPages r > page r + 1)
      \<and> (query p = Some q \<longrightarrow>
            totalPages (reducer q s (Update p)) = Some (nbPages r)
            \<and> lastPage (reducer q s (Update p)) = Some (page r)
            \<and> hasMore (reducer q s (Update p)) = Some (nbPages r > page r + 1)))
   \<and> hasMore (reducer q s Advance)
       = Some (toNumber (totalPages s) > toNumber (lastPage s) + 1)
   \<and> (totalPages s = Some tp \<and> lastPage s = Some lp \<longrightarrow>
        (hasMore (reducer q s Advance) = Some True) = (tp > lp + 1))
   \<and> (toNumber (totalPages (reducer q s Advance))
         > toNumber (lastPage (reducer q s Advance)) + 1 \<longrightarrow>
        hasMore (reducer q s Advance) = Some True)
   \<and> (hasMore (reducer q s Advance) = Some True \<longrightarrow>
        lastPage (reducer q s Advance) = Some (toNumber (lastPage s) + 1)
        \<and> toNumber (totalPages (reducer q s Advance))
            > toNumber (lastPage (reducer q s Advance)))"
proof -
  have post1: "toNumber (totalPages (reducer q s Advance))
         > toNumber (lastPage (reducer q s Advance)) + 1 \<longrightarrow>
        hasMore (reducer q s Advance) = Some True"
    by (simp add: Let_def)
  have post2: "hasMore (reducer q s Advance) = Some True \<longrightarrow>
        lastPage (reducer q s Advance) = Some (toNumber (lastPage s) + 1)
        \<and> toNumber (totalPages (reducer q s Advance))
            > toNumber (lastPage (reducer q s Advance))"
    by (simp add: Let_def)
  have handler: "totalPages p = Some (nbPages r) \<and> lastPage p = Some (page r)
      \<and> hasMore p = Some (nbPages r > page r + 1)"
    if "resultHandler parseURL r = Inr (Update p)"
    using that by (auto simp: resultHandler_def split: sum.splits if_splits)
  have accepted: "totalPages (reducer q s (Update p)) = totalPages p
      \<and> lastPage (reducer q s (Update p)) = lastPage p
      \<and> hasMore (reducer q s (Update p)) = hasMore p"
    if "query p = Some q"
    using that by simp
  have adv: "hasMore (reducer q s Advance)
       = Some (toNumber (totalPages s) > toNumber (lastPage s) + 1)"
    by (simp add: Let_def)
  have advInt: "(hasMore (reducer q s Advance) = Some True) = (tp > lp + 1)"
    if "totalPages s = Some tp \<and> lastPage s = Some lp"
    using that by (simp add: Let_def)
  from handler accepted have first:
    "resultHandler parseURL r = Inr (Update p) \<longrightarrow>
      totalPages p = Some (nbPages r) \<and> lastPage p = Some (page r)
      \<and> hasMore p = Some (nbPages r > page r + 1)
      \<and> (query p = Some q \<longrightarrow>
            totalPages (reducer q s (Update p)) = Some (nbPages r)
            \<and> lastPage (reducer q s (Update p)) = Some (page r)
            \<and> hasMore (reducer q s (Update p)) = Some (nbPages r > page r + 1))"
    by metis
  from advInt have third:
    "totalPages s = Some tp \<and> lastPage s = Some lp \<longrightarrow>
        (hasMore (reducer q s Advance) = Some True) = (tp > lp + 1)"
    by blast
  show ?thesis
    by (rule conjI [OF first conjI [OF adv conjI [OF third conjI [OF post1 post2]]]])
qed

theorem hasMore_derivation_witness:
  "resultHandler (\<lambda>u. None)
      \<lparr>res_query = ''foo'', hits = HitsArray [], page = 0, nbHits = 0, nbPages = 0\<rparr>
     = Inr (Update \<lparr>items = [], query = Some ''foo'', totalResults = Some 0,
                    totalPages = Some 0, lastPage = Some 0, hasMore = Some False,
                    loading = Some False\<rparr>)
   \<and> hasMore \<lparr>items = [], query = Some ''foo'', totalResults = Some 0,
               totalPages = Some 0, lastPage = Some 0, hasMore = Some False,
               loading = Some False\<rparr> = Some ((0::int) > 0 + 1)
   \<and> totalPages (initialSearchResultState\<lparr>totalPages := Some 3, lastPage := Some 2\<rparr>) = Some 3
   \<and> lastPage (initialSearchResultState\<lparr>totalPages := Some 3, lastPage := Some 2\<rparr>) = Some 2
   \<and> hasMore (reducer ''foo''
        (initialSearchResultState\<lparr>totalPages := Some 3, lastPage := Some 2\<rparr>) Advance)
       \<noteq> Some True"
  using hasMore_derivation
    [of "\<lambda>u. None"
        "\<lparr>res_query = ''foo'', hits = HitsArray [], page = 0, nbHits = 0, nbPages = 0\<rparr>"
        "\<lparr>items = [], query = Some ''foo'', totalResults = Some 0,
          totalPages = Some 0, lastPage = Some 0, hasMore = Some False,
          loading = Some False\<rparr>"
        "''foo''"
        "initialSearchResultState\<lparr>totalPages := Some 3, lastPage := Some 2\<rparr>" 3 2]
  by (simp add: resultHandler_def initialSearchResultState_def)

text \<open>
  C3, as stated, fails on the state that \<^verbatim>\<open>advance\<close> returns. With two pages and the
  first one shown, \<^verbatim>\<open>advance\<close> gives \<open>totalPages = 2\<close>, \<open>lastPage = 1\<close> and a true
  \<^verbatim>\<open>hasMore\<close>, while \<open>2 > 1 + 1\<close> is false.
\<close>

theorem hasMore_after_advance_counterexample:
  "hasMore (reducer ''foo''
     \<lparr>items = [\<lparr>title = Str ''A'', url = ''/a'', summary = [], breadcrumbs = []\<rparr>],
      query = Some ''foo'', totalResults = Some 16, totalPages = Some 2,
      lastPage = Some 0, hasMore = Some True, loading = Some False\<rparr> Advance) = Some True
   \<and> totalPages (reducer ''foo''
     \<lparr>items = [\<lparr>title = Str ''A'', url = ''/a'', summary = [], breadcrumbs = []\<rparr>],
      query = Some ''foo'', totalResults = Some 16, totalPages = Some 2,
      lastPage = Some 0, hasMore = Some True, loading = Some False\<rparr> Advance) = Some 2
   \<and> lastPage (reducer ''foo''
     \<lparr>items = [\<lparr>title = Str ''A'', url = ''/a'', summary = [], breadcrumbs = []\<rparr>],
      query = Some ''foo'', totalResults = Some 16, totalPages = Some 2,
      lastPage = Some 0, hasMore = Some True, loading = Some False\<rparr> Advance) = Some 1
   \<and> \<not> ((hasMore (reducer ''foo''
     \<lparr>items = [\<lparr>title = Str ''A'', url = ''/a'', summary = [], breadcrumbs = []\<rparr>],
      query = Some ''foo'', totalResults = Some 16, totalPages = Some 2,
      lastPage = Some 0, hasMore = Some True, loading = Some False\<rparr> Advance) = Some True)
     = (toNumber (totalPages (reducer ''foo''
     \<lparr>items = [\<lparr>title = Str ''A'', url = ''/a'', summary = [], breadcrumbs = []\<rparr>],
      query = Some ''foo'', totalResults = Some 16, totalPages = Some 2,
      lastPage = Some 0, hasMore = Some True, loading = Some False\<rparr> Advance))
        > toNumber (lastPage (reducer ''foo''
     \<lparr>items = [\<lparr>title = Str ''A'', url = ''/a'', summary = [], breadcrumbs = []\<rparr>],
      query = Some ''foo'', totalResults = Some 16, totalPages = Some 2,
      lastPage = Some 0, hasMore = Some True, loading = Some False\<rparr> Advance)) + 1))"
  by simp

text \<open>
  The state of the counterexample is the one the page is in after the first response
  for a query with two pages of results: the handler's payload for page \<open>0\<close> of \<open>2\<close>,
  accepted on the state that \<^verbatim>\<open>reset\<close> and \<^verbatim>\<open>loading\<close> leave.
\<close>

lemma first_page_of_two_reached:
  "resultHandler (\<lambda>s. Some \<lparr>pathname = ''/a'', search = [], hash = []\<rparr>)
     \<lparr>res_query = ''foo'',
      hits = HitsArray
        [\<lparr>hit_url = ''https://example.org/a'',
          highlightResult = [''hierarchy.lvl0'' \<mapsto> \<lparr>hl_value = ''A''\<rparr>],
          snippetResult = None\<rparr>],
      page = 0, nbHits = 16, nbPages = 2\<rparr>
   = Inr (Update
       \<lparr>items = [\<lparr>title = Str ''A'', url = ''/a'', summary = [], breadcrumbs = []\<rparr>],
        query = Some ''foo'', totalResults = Some 16, totalPages = Some 2,
        lastPage = Some 0, hasMore = Some True, loading = Some False\<rparr>)
   \<and> reducer ''foo'' (reducer ''foo'' (reducer ''foo'' s Reset) Loading)
       (Update
         \<lparr>items = [\<lparr>title = Str ''A'', url = ''/a'', summary = [], breadcrumbs = []\<rparr>],
          query = Some ''foo'', totalResults = Some 16, totalPages = Some 2,
          lastPage = Some 0, hasMore = Some True, loading = Some False\<rparr>)
     = \<lparr>items = [\<lparr>title = Str ''A'', url = ''/a'', summary = [], breadcrumbs = []\<rparr>],
        query = Some ''foo'', totalResults = Some 16, totalPages = Some 2,
        lastPage = Some 0, hasMore = Some True, loading = Some False\<rparr>"
proof -
  have "resultHandler (\<lambda>s. Some \<lparr>pathname = ''/a'', search = [], hash = []\<rparr>)
     \<lparr>res_query = ''foo'',
      hits = HitsArray
        [\<lparr>hit_url = ''https://example.org/a'',
          highlightResult = [''hierarchy.lvl0'' \<mapsto> \<lparr>hl_value = ''A''\<rparr>],
          snippetResult = None\<rparr>],
      page = 0, nbHits = 16, nbPages = 2\<rparr>
   = Inr (Update
       \<lparr>items = [\<lparr>title = Str ''A'', url = ''/a'', summary = [], breadcrumbs = []\<rparr>],
        query = Some ''foo'', totalResults = Some 16, totalPages = Some 2,
        lastPage = Some 0, hasMore = Some True, loading = Some False\<rparr>)"
    by code_simp
  then show ?thesis by simp
qed

text \<open>
  C4. \<^verbatim>\<open>advance\<close> increments \<open>lastPage\<close> by exactly one when \<open>totalPages > lastPage + 1\<close>
  holds in the state it is given, and leaves \<open>lastPage\<close> as it is otherwise. The
  condition is computed from \<open>totalPages\<close> and \<open>lastPage\<close>: the \<open>hasMore\<close> flag stored in
  the state plays no part. The effect that fetches the next page depends on the states
  of two renders only through their \<open>lastPage\<close>, does nothing when \<open>lastPage\<close> has not
  changed, and after an incrementing \<^verbatim>\<open>advance\<close> (from a non-negative page) runs
  \<^verbatim>\<open>makeSearch\<close> once, for the new page.
\<close>

theorem advance_increments_lastPage:
  "(toNumber (totalPages s) > toNumber (lastPage s) + 1 \<longrightarrow>
      lastPage (reducer q s Advance) = Some (toNumber (lastPage s) + 1))
   \<and> (\<not> toNumber (totalPages s) > toNumber (lastPage s) + 1 \<longrightarrow>
        lastPage (reducer q s Advance) = lastPage s)
   \<and> lastPage (reducer q (s\<lparr>hasMore := b\<rparr>) Advance) = lastPage (reducer q s Advance)
   \<and> (lastPage s' = lastPage s \<and> lastPage t' = lastPage t \<longrightarrow>
        lastPageEffectOnRender ctx s' t' = lastPageEffectOnRender ctx s t)
   \<and> (lastPage t = lastPage s \<longrightarrow> lastPageEffectOnRender ctx s t = [])
   \<and> (toNumber (totalPages s) > toNumber (lastPage s) + 1 \<and> 0 \<le> toNumber (lastPage s) \<longrightarrow>
        lastPageEffectOnRender ctx s (reducer q s Advance)
          = makeSearch ctx (toNumber (lastPage s) + 1))"
proof -
  have inc: "toNumber (totalPages s) > toNumber (lastPage s) + 1 \<longrightarrow>
      lastPage (reducer q s Advance) = Some (toNumber (lastPage s) + 1)"
    by simp
  have keep: "\<not> toNumber (totalPages s) > toNumber (lastPage s) + 1 \<longrightarrow>
      lastPage (reducer q s Advance) = lastPage s"
    by simp
  have flag: "lastPage (reducer q (s\<lparr>hasMore := b\<rparr>) Advance) = lastPage (reducer q s Advance)"
    by (simp add: Let_def)
  have only: "lastPage s' = lastPage s \<and> lastPage t' = lastPage t \<longrightarrow>
      lastPageEffectOnRender ctx s' t' = lastPageEffectOnRender ctx s t"
    by (simp add: lastPageEffectOnRender_def lastPageEffect_def)
  have same: "lastPage t = lastPage s \<longrightarrow> lastPageEffectOnRender ctx s t = []"
    by (simp add: lastPageEffectOnRender_def)
  have eff: "toNumber (totalPages s) > toNumber (lastPage s) + 1 \<and> 0 \<le> toNumber (lastPage s) \<longrightarrow>
      lastPageEffectOnRender ctx s (reducer q s Advance)
        = makeSearch ctx (toNumber (lastPage s) + 1)"
    by (cases "lastPage s") (simp_all add: lastPageEffectOnRender_def lastPageEffect_def)
  from inc keep flag only same eff show ?thesis by blast
qed

theorem advance_increments_lastPage_witness:
  "toNumber (totalPages (initialSearchResultState\<lparr>totalPages := Some 3, lastPage := Some 1\<rparr>))
     > toNumber (lastPage (initialSearchResultState\<lparr>totalPages := Some 3, lastPage := Some 1\<rparr>)) + 1
   \<and> lastPage (reducer ''foo''
        (initialSearchResultState\<lparr>totalPages := Some 3, lastPage := Some 1\<rparr>) Advance) = Some 2
   \<and> lastPageEffectOnRender
        \<lparr>searchQuery = ''foo'', filter_by = Str ''lang:en'', currentLocale = ''en'',
         searchVersions = []\<rparr>
        (initialSearchResultState\<lparr>totalPages := Some 3, lastPage := Some 1\<rparr>)
        (reducer ''foo''
          (initialSearchResultState\<lparr>totalPages := Some 3, lastPage := Some 1\<rparr>) Advance)
       = [SetQuery ''foo'', SetPage 2, Search]
   \<and> \<not> toNumber (totalPages (initialSearchResultState\<lparr>totalPages := Some 2, lastPage := Some 1\<rparr>))
     > toNumber (lastPage (initialSearchResultState\<lparr>totalPages := Some 2, lastPage := Some 1\<rparr>)) + 1
   \<and> lastPage (reducer ''foo''
        (initialSearchResultState\<lparr>totalPages := Some 2, lastPage := Some 1\<rparr>) Advance) = Some 1"
  using advance_increments_lastPage
    [where s = "initialSearchResultState\<lparr>totalPages := Some 3, lastPage := Some 1\<rparr>"
       and q = "''foo''"
       and ctx = "\<lparr>searchQuery = ''foo'', filter_by = Str ''lang:en'', currentLocale = ''en'',
                   searchVersions = []\<rparr>"
       and s' = "initialSearchResultState\<lparr>totalPages := Some 3, lastPage := Some 1\<rparr>"
       and t = "initialSearchResultState\<lparr>totalPages := Some 3, lastPage := Some 1\<rparr>"
       and t' = "initialSearchResultState\<lparr>totalPages := Some 3, lastPage := Some 1\<rparr>"]
    advance_increments_lastPage
    [where s = "initialSearchResultState\<lparr>totalPages := Some 2, lastPage := Some 1\<rparr>"
       and q = "''foo''"
       and s' = "initialSearchResultState\<lparr>totalPages := Some 2, lastPage := Some 1\<rparr>"
       and t = "initialSearchResultState\<lparr>totalPages := Some 2, lastPage := Some 1\<rparr>"
       and t' = "initialSearchResultState\<lparr>totalPages := Some 2, lastPage := Some 1\<rparr>"]
  by (simp add: initialSearchResultState_def makeSearch_def)

section \<open>The guard of the result handler\<close>

text \<open>
  C5. A response whose query is the empty string, or whose \<^verbatim>\<open>hits\<close> is not an array, makes
  the result handler dispatch \<^verbatim>\<open>reset\<close>, whatever else it carries; and \<^verbatim>\<open>reset\<close> returns
  the initial state, with no items and every other field \<^verbatim>\<open>null\<close>, from every prior state.
\<close>

theorem malformed_response_resets:
  "(res_query r = [] \<or> hits r = NotAnArray \<longrightarrow> resultHandler parseURL r = Inr Reset)
   \<and> reducer q s Reset = initialSearchResultState
   \<and> reducer q s Reset
       = \<lparr>items = [], query = None, totalResults = None, totalPages = None,
          lastPage = None, hasMore = None, loading = None\<rparr>"
  by (auto simp: resultHandler_def initialSearchResultState_def)

theorem malformed_response_resets_witness:
  "hits \<lparr>res_query = ''foo'', hits = NotAnArray, page = 0, nbHits = 0, nbPages = 0\<rparr> = NotAnArray
   \<and> resultHandler (\<lambda>u. None)
        \<lparr>res_query = ''foo'', hits = NotAnArray, page = 0, nbHits = 0, nbPages = 0\<rparr> = Inr Reset
   \<and> res_query \<lparr>res_query = '''', hits = HitsArray [], page = 0, nbHits = 0, nbPages = 0\<rparr> = []
   \<and> resultHandler (\<lambda>u. None)
        \<lparr>res_query = '''', hits = HitsArray [], page = 0, nbHits = 0, nbPages = 0\<rparr> = Inr Reset
   \<and> reducer ''foo''
        \<lparr>items = [\<lparr>title = Str ''A'', url = ''/a'', summary = '''', breadcrumbs = []\<rparr>],
         query = Some ''foo'', totalResults = Some 1, totalPages = Some 1,
         lastPage = Some 0, hasMore = Some False, loading = Some False\<rparr> Reset
       = initialSearchResultState"
  using malformed_response_resets
    [of "\<lparr>res_query = ''foo'', hits = NotAnArray, page = 0, nbHits = 0, nbPages = 0\<rparr>"
        "\<lambda>u. None" "''foo''"
        "\<lparr>items = [\<lparr>title = Str ''A'', url = ''/a'', summary = '''', breadcrumbs = []\<rparr>],
          query = Some ''foo'', totalResults = Some 1, totalPages = Some 1,
          lastPage = Some 0, hasMore = Some False, loading = Some False\<rparr>"]
    malformed_response_resets
    [of "\<lparr>res_query = '''', hits = HitsArray [], page = 0, nbHits = 0, nbPages = 0\<rparr>"
        "\<lambda>u. None" "''foo''" "initialSearchResultState"]
  by simp

section \<open>Automatic facet refinements\<close>

text \<open>
  C6. The claim holds for a configuration that supplies \<^verbatim>\<open>filter_by\<close> as a string; for
  one that does not, the code does not do what the claim says. \<^verbatim>\<open>makeSearch\<close> starts
  with \<^verbatim>\<open>addDisjunctiveFacetRefinement('docusaurus_tag', 'default')\<close>, but the helper was
  built with \<^verbatim>\<open>'language'\<close> as its only disjunctive facet, so this first call throws:
  no refinement is added, neither for the language nor for any docs plugin, and the
  query is not set and no search is made. Evaluated here for the query \<open>foo\<close>, the
  locale \<open>en\<close> and two docs plugins with a selected version each.
\<close>

theorem makeSearch_without_filter_by_throws:
  "makeSearch \<lparr>searchQuery = ''foo'', filter_by = Undefined, currentLocale = ''en'',
               searchVersions = [(''default'', ''current''), (''api'', ''2.0'')]\<rparr> 0
     = [Throws (FacetNotDeclared ''docusaurus_tag'')]"
  by (simp add: makeSearch_def disjunctiveFacets_def)

text \<open>The same for every configuration without \<^verbatim>\<open>filter_by\<close>, every query and every page.\<close>

lemma makeSearch_no_filter_by:
  "filter_by ctx = Undefined \<or> filter_by ctx = Null \<Longrightarrow>
   makeSearch ctx pg = [Throws (FacetNotDeclared ''docusaurus_tag'')]"
  by (auto simp: makeSearch_def disjunctiveFacets_def)

text \<open>
  With \<^verbatim>\<open>filter_by\<close> given as a string (the empty string included) no refinement is
  added: the query and the page are set and the search is made.
\<close>

lemma makeSearch_explicit_filter_by:
  "filter_by ctx = Str f \<Longrightarrow>
   makeSearch ctx pg = [SetQuery (searchQuery ctx), SetPage pg, Search]"
  by (auto simp: makeSearch_def)

text \<open>
  \<open>perform\<close> stops only at an undeclared facet: calls that refine declared facets only
  all return.
\<close>

lemma perform_all_declared:
  "\<forall>c\<in>set cs. (\<forall>facet v. c = AddDisjunctiveFacetRefinement facet v \<longrightarrow>
                    facet \<in> set disjunctiveFacets) \<and> (\<forall>e. c \<noteq> Throws e)
   \<Longrightarrow> perform cs = cs"
proof (induction cs)
  case Nil
  show ?case by simp
next
  case (Cons c cs)
  then show ?case by (cases c) simp_all
qed

section \<open>The infinite-scroll trigger\<close>

lemma observerCallback_Cons:
  "observerCallback prevY (e # es) = Inr (dispatchedOn prevY e, boundingClientRect_y e)"
  by (simp add: observerCallback_def dispatchedOn_def)

lemma observeAll_run:
  assumes "\<forall>es\<in>set obs. es \<noteq> []"
  shows "\<exists>actss y. observeAll y0 obs = Inr (actss, y) \<and> length actss = length obs
           \<and> (\<forall>i<length obs. actss ! i = dispatchedOn (prevYAt y0 obs i) (hd (obs ! i)))"
  using assms
proof (induction obs arbitrary: y0)
  case Nil
  show ?case by simp
next
  case (Cons entries rest)
  from Cons.prems obtain e es where entries: "entries = e # es"
    by (cases entries) auto
  from Cons.prems have "\<forall>es\<in>set rest. es \<noteq> []" by simp
  from Cons.IH [OF this, of "boundingClientRect_y e"]
  obtain actss y where
    run: "observeAll (boundingClientRect_y e) rest = Inr (actss, y)" and
    len: "length actss = length rest" and
    each: "\<forall>i<length rest.
             actss ! i = dispatchedOn (prevYAt (boundingClientRect_y e) rest i) (hd (rest ! i))"
    by blast
  have res: "observeAll y0 (entries # rest) = Inr (dispatchedOn y0 e # actss, y)"
    by (simp add: entries observerCallback_Cons run)
  have "(dispatchedOn y0 e # actss) ! i
          = dispatchedOn (prevYAt y0 (entries # rest) i) (hd ((entries # rest) ! i))"
    if "i < length (entries # rest)" for i
  proof (cases i)
    case 0
    then show ?thesis by (simp add: prevYAt_def entries)
  next
    case (Suc j)
    with that have j: "j < length rest" by simp
    have "prevYAt y0 (entries # rest) (Suc j) = prevYAt (boundingClientRect_y e) rest j"
      by (cases j) (simp_all add: prevYAt_def entries)
    with each j Suc show ?thesis by simp
  qed
  with res len show ?case by simp
qed

text \<open>
  C8. For every observation delivered to the callback, \<^verbatim>\<open>advance\<close> is dispatched (once) if
  and only if the first entry is intersecting and its vertical position is strictly
  below the stored one; the stored position then becomes the current one. So along any
  run of observations the \<open>i\<close>-th one dispatches \<^verbatim>\<open>advance\<close> exactly when it is
  intersecting and lower than the observation before it (for the first one: lower than
  the initial value of \<^verbatim>\<open>prevY.current\<close>); an intersecting observation at the same height
  or higher dispatches nothing.
\<close>

theorem observer_advance_iff_downward:
  "observerCallback prevY (e # es)
     = Inr (if isIntersecting e \<and> prevY > boundingClientRect_y e then [Advance] else [],
            boundingClientRect_y e)
   \<and> ((\<forall>es\<in>set obs. es \<noteq> []) \<longrightarrow>
        (\<exists>actss y. observeAll y0 obs = Inr (actss, y) \<and> length actss = length obs
           \<and> (\<forall>i<length obs.
                 (Advance \<in> set (actss ! i))
                   = (isIntersecting (hd (obs ! i))
                      \<and> prevYAt y0 obs i > boundingClientRect_y (hd (obs ! i)))
                 \<and> (actss ! i = [Advance] \<or> actss ! i = []))))"
proof -
  have one: "observerCallback prevY (e # es)
     = Inr (if isIntersecting e \<and> prevY > boundingClientRect_y e then [Advance] else [],
            boundingClientRect_y e)"
    by (simp add: observerCallback_def)
  have run: "\<exists>actss y. observeAll y0 obs = Inr (actss, y) \<and> length actss = length obs
           \<and> (\<forall>i<length obs.
                 (Advance \<in> set (actss ! i))
                   = (isIntersecting (hd (obs ! i))
                      \<and> prevYAt y0 obs i > boundingClientRect_y (hd (obs ! i)))
                 \<and> (actss ! i = [Advance] \<or> actss ! i = []))"
    if ne: "\<forall>es\<in>set obs. es \<noteq> []"
  proof -
    from observeAll_run [OF ne, of y0] obtain actss y where
      r: "observeAll y0 obs = Inr (actss, y)" "length actss = length obs" and
      each: "\<forall>i<length obs. actss ! i = dispatchedOn (prevYAt y0 obs i) (hd (obs ! i))"
      by blast
    from each have "\<forall>i<length obs.
                 (Advance \<in> set (actss ! i))
                   = (isIntersecting (hd (obs ! i))
                      \<and> prevYAt y0 obs i > boundingClientRect_y (hd (obs ! i)))
                 \<and> (actss ! i = [Advance] \<or> actss ! i = [])"
      by (simp add: dispatchedOn_def)
    with r show ?thesis by blast
  qed
  from one run show ?thesis by blast
qed

theorem observer_advance_iff_downward_witness:
  "list_all (\<lambda>es. es \<noteq> [])
      [[\<lparr>isIntersecting = False, boundingClientRect_y = 900\<rparr>],
       [\<lparr>isIntersecting = True, boundingClientRect_y = 640\<rparr>],
       [\<lparr>isIntersecting = True, boundingClientRect_y = 700\<rparr>],
       [\<lparr>isIntersecting = True, boundingClientRect_y = 655.5\<rparr>]]
   \<and> observeAll initialPrevY [[\<lparr>isIntersecting = False, boundingClientRect_y = 900\<rparr>],
                    [\<lparr>isIntersecting = True, boundingClientRect_y = 640\<rparr>],
                    [\<lparr>isIntersecting = True, boundingClientRect_y = 700\<rparr>],
                    [\<lparr>isIntersecting = True, boundingClientRect_y = 655.5\<rparr>]]
       = Inr ([[], [Advance], [], [Advance]], 655.5)"
  using observer_advance_iff_downward
    [of 0 "\<lparr>isIntersecting = False, boundingClientRect_y = 900\<rparr>" "[]"
        "[[\<lparr>isIntersecting = False, boundingClientRect_y = 900\<rparr>],
          [\<lparr>isIntersecting = True, boundingClientRect_y = 640\<rparr>],
          [\<lparr>isIntersecting = True, boundingClientRect_y = 700\<rparr>],
          [\<lparr>isIntersecting = True, boundingClientRect_y = 655.5\<rparr>]]" initialPrevY]
  by (simp add: observerCallback_def initialPrevY_def)

section \<open>Result shaping\<close>

lemma replaceAll_Nil_iff: "rep \<noteq> [] \<Longrightarrow> (replaceAll pat rep s = []) = (s = [])"
  by (cases s) simp_all

lemma sanitizeValue_Nil_iff: "(sanitizeValue v = []) = (v = [])"
  by (simp add: sanitizeValue_def replaceAll_Nil_iff spanOpen_def spanClose_def)

lemma truthy_levelTitle: "truthy (levelTitle h l) = nonEmptyLevel h l"
  by (simp add: levelTitle_def nonEmptyLevel_def sanitizeValue_Nil_iff split: option.splits)

lemma titlesOf_filter: "titlesOf h = map (levelTitle h) (filter (nonEmptyLevel h) levels)"
  by (simp add: titlesOf_def filter_map comp_def truthy_levelTitle)

lemma sorted_levels: "sorted_wrt (<) levels"
  by (simp add: levels_def)

text \<open>
  In a strictly increasing list, the largest element that satisfies \<open>P\<close> is the last
  one that \<open>filter\<close> keeps.
\<close>

lemma filter_deepest:
  fixes l :: nat
  assumes "sorted_wrt (<) xs" "l \<in> set xs" "P l" "\<forall>k\<in>set xs. l < k \<longrightarrow> \<not> P k"
  shows "filter P xs = filter (\<lambda>k. P k \<and> k \<noteq> l) xs @ [l]"
  using assms
proof (induction xs)
  case Nil
  then show ?case by simp
next
  case (Cons x xs)
  show ?case
  proof (cases "x = l")
    case True
    with Cons.prems have above: "\<forall>k\<in>set xs. l < k" by simp
    with Cons.prems have "\<forall>k\<in>set xs. \<not> P k" by simp
    then have "filter P xs = []" "filter (\<lambda>k. P k \<and> k \<noteq> l) xs = []"
      by (simp_all add: filter_empty_conv)
    with True Cons.prems show ?thesis by simp
  next
    case False
    with Cons.prems have "l \<in> set xs" by simp
    moreover from Cons.prems have "sorted_wrt (<) xs" by simp
    moreover from Cons.prems have "\<forall>k\<in>set xs. l < k \<longrightarrow> \<not> P k" by simp
    ultimately have "filter P xs = filter (\<lambda>k. P k \<and> k \<noteq> l) xs @ [l]"
      using Cons.IH Cons.prems(3) by blast
    with False show ?thesis by simp
  qed
qed

lemma shapeHit_Some:
  "parseURL (hit_url h) = Some u \<Longrightarrow>
   shapeHit parseURL h
     = Inr \<lparr>title = fst (pop (titlesOf h)),
            url = pathname u @ hash u,
            summary = (case snippetResult h of
                         None \<Rightarrow> []
                       | Some m \<Rightarrow> (case m ''content'' of
                                      None \<Rightarrow> []
                                    | Some c \<Rightarrow> sanitizeValue (hl_value c) @ ''...'')),
            breadcrumbs = snd (pop (titlesOf h))\<rparr>"
  by (simp add: shapeHit_def Let_def split: prod.splits option.splits)

lemma shapeHit_None: "parseURL (hit_url h) = None \<Longrightarrow> shapeHit parseURL h = Inl TypeError"
  by (simp add: shapeHit_def)

text \<open>
  C7. Result shaping inspects the seven levels \<open>lvl0\<close> to \<open>lvl6\<close> in this order. A hit
  whose URL parses is shaped into an item. The item's url is the pathname of the parsed
  URL followed by its fragment, whatever its query string; the summary is the sanitized
  content snippet followed by \<open>...\<close> when the snippet has a content entry, and empty
  otherwise; and when \<open>l\<close> is the deepest non-empty level, the title is the sanitized
  value of level \<open>l\<close> and the breadcrumbs are the sanitized values of the other
  non-empty levels, in level order.
\<close>

theorem shapeHit_title_breadcrumbs_url_summary:
  assumes "parseURL (hit_url h) = Some u"
  shows "map levelKey levels
           = [''hierarchy.lvl0'', ''hierarchy.lvl1'', ''hierarchy.lvl2'', ''hierarchy.lvl3'',
              ''hierarchy.lvl4'', ''hierarchy.lvl5'', ''hierarchy.lvl6'']
         \<and> (\<exists>item. shapeHit parseURL h = Inr item
               \<and> url item = pathname u @ hash u
               \<and> summary item
                   = (case snippetResult h of
                        None \<Rightarrow> []
                      | Some m \<Rightarrow> (case m ''content'' of
                                     None \<Rightarrow> []
                                   | Some c \<Rightarrow> sanitizeValue (hl_value c) @ ''...''))
               \<and> (\<forall>l\<in>set levels. \<forall>hr.
                     highlightResult h (levelKey l) = Some hr \<and> hl_value hr \<noteq> []
                     \<and> (\<forall>k\<in>set levels. l < k \<longrightarrow> \<not> nonEmptyLevel h k)
                     \<longrightarrow> title item = Str (sanitizeValue (hl_value hr))
                         \<and> breadcrumbs item
                             = map (levelTitle h)
                                 (filter (\<lambda>k. nonEmptyLevel h k \<and> k \<noteq> l) levels)))
         \<and> (\<forall>k\<in>set levels. nonEmptyLevel h k \<longrightarrow>
               (\<exists>hr. highlightResult h (levelKey k) = Some hr
                     \<and> levelTitle h k = Str (sanitizeValue (hl_value hr))))"
proof -
  have keys: "map levelKey levels
           = [''hierarchy.lvl0'', ''hierarchy.lvl1'', ''hierarchy.lvl2'', ''hierarchy.lvl3'',
              ''hierarchy.lvl4'', ''hierarchy.lvl5'', ''hierarchy.lvl6'']"
    by code_simp
  define item where
    "item = \<lparr>title = fst (pop (titlesOf h)),
             url = pathname u @ hash u,
             summary = (case snippetResult h of
                          None \<Rightarrow> []
                        | Some m \<Rightarrow> (case m ''content'' of
                                       None \<Rightarrow> []
                                     | Some c \<Rightarrow> sanitizeValue (hl_value c) @ ''...'')),
             breadcrumbs = snd (pop (titlesOf h))\<rparr>"
  have shaped: "shapeHit parseURL h = Inr item"
    using assms by (simp add: shapeHit_Some item_def)
  have urlp: "url item = pathname u @ hash u"
    by (simp add: item_def)
  have summ: "summary item
             = (case snippetResult h of
                  None \<Rightarrow> []
                | Some m \<Rightarrow> (case m ''content'' of
                               None \<Rightarrow> []
                             | Some c \<Rightarrow> sanitizeValue (hl_value c) @ ''...''))"
    by (simp add: item_def)
  have deepest: "title item = Str (sanitizeValue (hl_value hr))
                   \<and> breadcrumbs item
                       = map (levelTitle h) (filter (\<lambda>k. nonEmptyLevel h k \<and> k \<noteq> l) levels)"
    if l: "l \<in> set levels" and hr: "highlightResult h (levelKey l) = Some hr"
      and ne: "hl_value hr \<noteq> []"
      and top: "\<forall>k\<in>set levels. l < k \<longrightarrow> \<not> nonEmptyLevel h k" for l hr
  proof -
    from hr ne have P: "nonEmptyLevel h l" by (simp add: nonEmptyLevel_def)
    from filter_deepest [OF sorted_levels l, of "nonEmptyLevel h", OF P top]
    have "titlesOf h
            = map (levelTitle h) (filter (\<lambda>k. nonEmptyLevel h k \<and> k \<noteq> l) levels)
              @ [levelTitle h l]"
      by (simp add: titlesOf_filter)
    then have "pop (titlesOf h)
            = (levelTitle h l,
               map (levelTitle h) (filter (\<lambda>k. nonEmptyLevel h k \<and> k \<noteq> l) levels))"
      by (simp add: pop_def)
    with hr show ?thesis by (simp add: item_def levelTitle_def)
  qed
  have crumbs: "\<exists>hr. highlightResult h (levelKey k) = Some hr
                     \<and> levelTitle h k = Str (sanitizeValue (hl_value hr))"
    if "nonEmptyLevel h k" for k
    using that
    by (cases "highlightResult h (levelKey k)") (simp_all add: nonEmptyLevel_def levelTitle_def)
  from keys shaped urlp summ deepest crumbs show ?thesis by blast
qed

theorem shapeHit_title_breadcrumbs_url_summary_witness:
  "shapeHit
     (\<lambda>s. if s = ''https://example.org/docs/intro?x=1#install''
          then Some \<lparr>pathname = ''/docs/intro'', search = ''?x=1'', hash = ''#install''\<rparr>
          else None)
     \<lparr>hit_url = ''https://example.org/docs/intro?x=1#install'',
      highlightResult =
        [''hierarchy.lvl0'' \<mapsto> \<lparr>hl_value = ''Docs''\<rparr>,
         ''hierarchy.lvl1'' \<mapsto> \<lparr>hl_value = ''Intro''\<rparr>,
         ''hierarchy.lvl2'' \<mapsto> \<lparr>hl_value = ''<algolia-docsearch-suggestion--highlight>In</algolia-docsearch-suggestion--highlight>stall''\<rparr>,
         ''hierarchy.lvl4'' \<mapsto> \<lparr>hl_value = ''''\<rparr>],
      snippetResult = Some [''content'' \<mapsto> \<lparr>hl_value = ''run it''\<rparr>]\<rparr>
   = Inr \<lparr>title = Str (''<span class='' @ [CHR 0x22] @ ''search-result-match'' @ [CHR 0x22]
                        @ ''>In</span>stall''),
          url = ''/docs/intro#install'',
          summary = ''run it...'',
          breadcrumbs = [Str ''Docs'', Str ''Intro'']\<rparr>
   \<and> Str (''<span class='' @ [CHR 0x22] @ ''search-result-match'' @ [CHR 0x22] @ ''>In</span>stall'')
     = Str (sanitizeValue ''<algolia-docsearch-suggestion--highlight>In</algolia-docsearch-suggestion--highlight>stall'')
   \<and> [Str ''Docs'', Str ''Intro'']
     = map (levelTitle
             \<lparr>hit_url = ''https://example.org/docs/intro?x=1#install'',
              highlightResult =
                [''hierarchy.lvl0'' \<mapsto> \<lparr>hl_value = ''Docs''\<rparr>,
                 ''hierarchy.lvl1'' \<mapsto> \<lparr>hl_value = ''Intro''\<rparr>,
                 ''hierarchy.lvl2'' \<mapsto> \<lparr>hl_value = ''<algolia-docsearch-suggestion--highlight>In</algolia-docsearch-suggestion--highlight>stall''\<rparr>,
                 ''hierarchy.lvl4'' \<mapsto> \<lparr>hl_value = ''''\<rparr>],
              snippetResult = Some [''content'' \<mapsto> \<lparr>hl_value = ''run it''\<rparr>]\<rparr>)
           [0, 1]"
proof -
  let ?P = "\<lambda>s. if s = ''https://example.org/docs/intro?x=1#install''
          then Some \<lparr>pathname = ''/docs/intro'', search = ''?x=1'', hash = ''#install''\<rparr>
          else None"
  let ?H = "\<lparr>hit_url = ''https://example.org/docs/intro?x=1#install'',
      highlightResult =
        [''hierarchy.lvl0'' \<mapsto> \<lparr>hl_value = ''Docs''\<rparr>,
         ''hierarchy.lvl1'' \<mapsto> \<lparr>hl_value = ''Intro''\<rparr>,
         ''hierarchy.lvl2'' \<mapsto> \<lparr>hl_value = ''<algolia-docsearch-suggestion--highlight>In</algolia-docsearch-suggestion--highlight>stall''\<rparr>,
         ''hierarchy.lvl4'' \<mapsto> \<lparr>hl_value = ''''\<rparr>],
      snippetResult = Some [''content'' \<mapsto> \<lparr>hl_value = ''run it''\<rparr>]\<rparr>"
  let ?T = "Str (''<span class='' @ [CHR 0x22] @ ''search-result-match'' @ [CHR 0x22]
                          @ ''>In</span>stall'')"
  let ?I = "\<lparr>title = ?T, url = ''/docs/intro#install'', summary = ''run it...'',
            breadcrumbs = [Str ''Docs'', Str ''Intro'']\<rparr>"
  let ?hr = "\<lparr>hl_value = ''<algolia-docsearch-suggestion--highlight>In</algolia-docsearch-suggestion--highlight>stall''\<rparr>"
  let ?U = "\<lparr>pathname = ''/docs/intro'', search = ''?x=1'', hash = ''#install''\<rparr>"
  have parsed: "?P (hit_url ?H) = Some ?U"
    by simp
  have shaped: "shapeHit ?P ?H = Inr ?I"
    by code_simp
  have l: "(2::nat) \<in> set levels"
    by (simp add: levels_def)
  have hr: "highlightResult ?H (levelKey 2) = Some ?hr"
    by code_simp
  have ne: "hl_value ?hr \<noteq> []"
    by simp
  have top: "\<forall>k\<in>set levels. 2 < k \<longrightarrow> \<not> nonEmptyLevel ?H k"
    by code_simp
  have others: "filter (\<lambda>k. nonEmptyLevel ?H k \<and> k \<noteq> 2) levels = [0, 1]"
    by code_simp
  note ex = shapeHit_title_breadcrumbs_url_summary
    [of ?P ?H ?U, OF parsed, THEN conjunct2, THEN conjunct1]
  from ex obtain item where all:
    "shapeHit ?P ?H = Inr item
     \<and> url item = pathname ?U @ hash ?U
     \<and> summary item
         = (case snippetResult ?H of
              None \<Rightarrow> []
            | Some m \<Rightarrow> (case m ''content'' of
                           None \<Rightarrow> []
                         | Some c \<Rightarrow> sanitizeValue (hl_value c) @ ''...''))
     \<and> (\<forall>l\<in>set levels. \<forall>hr.
           highlightResult ?H (levelKey l) = Some hr \<and> hl_value hr \<noteq> []
           \<and> (\<forall>k\<in>set levels. l < k \<longrightarrow> \<not> nonEmptyLevel ?H k)
           \<longrightarrow> title item = Str (sanitizeValue (hl_value hr))
               \<and> breadcrumbs item
                   = map (levelTitle ?H)
                       (filter (\<lambda>k. nonEmptyLevel ?H k \<and> k \<noteq> l) levels))" ..
  from all [THEN conjunct1] shaped have item: "item = ?I"
    by simp
  note deepest = all [THEN conjunct2, THEN conjunct2, THEN conjunct2, rule_format,
    OF l conjI [OF hr conjI [OF ne top]]]
  from deepest have t: "title item = Str (sanitizeValue (hl_value ?hr))"
    by (rule conjunct1)
  from deepest have b: "breadcrumbs item = map (levelTitle ?H) [0, 1]"
    unfolding others by (rule conjunct2)
  from t have t': "?T = Str (sanitizeValue ''<algolia-docsearch-suggestion--highlight>In</algolia-docsearch-suggestion--highlight>stall'')"
    unfolding item by simp
  from b have b': "[Str ''Docs'', Str ''Intro''] = map (levelTitle ?H) [0, 1]"
    unfolding item by simp
  from shaped t' b' show ?thesis
    by (intro conjI)
qed

text \<open>
  C10. For a hit with no non-empty level (every one of \<open>lvl0\<close> to \<open>lvl6\<close> missing,
  \<^verbatim>\<open>null\<close>, or with an empty value) whose URL parses, \<^verbatim>\<open>titles.pop()\<close> is taken of an
  empty array: the item is produced with title \<^verbatim>\<open>undefined\<close> and no breadcrumbs, so its
  title is not a string.
\<close>

theorem no_level_gives_undefined_title:
  assumes "\<forall>l\<in>set levels. \<not> nonEmptyLevel h l" and "parseURL (hit_url h) = Some u"
  shows "titlesOf h = []
         \<and> (\<exists>item. shapeHit parseURL h = Inr item \<and> title item = Undefined
                   \<and> breadcrumbs item = [] \<and> (\<forall>t. title item \<noteq> Str t))"
proof -
  from assms(1) have "filter (nonEmptyLevel h) levels = []"
    by (simp add: filter_empty_conv)
  then have empty: "titlesOf h = []" by (simp add: titlesOf_filter)
  then have "pop (titlesOf h) = (Undefined, [])" by (simp add: pop_def)
  with shapeHit_Some [of parseURL h u] assms(2) empty show ?thesis by simp
qed

theorem no_level_gives_undefined_title_witness:
  "filter (nonEmptyLevel
             \<lparr>hit_url = ''https://example.org/docs/intro'',
              highlightResult = [''hierarchy.lvl0'' \<mapsto> \<lparr>hl_value = ''''\<rparr>],
              snippetResult = None\<rparr>) levels = []
   \<and> titlesOf \<lparr>hit_url = ''https://example.org/docs/intro'',
               highlightResult = [''hierarchy.lvl0'' \<mapsto> \<lparr>hl_value = ''''\<rparr>],
               snippetResult = None\<rparr> = []
   \<and> shapeHit
        (\<lambda>s. Some \<lparr>pathname = ''/docs/intro'', search = [], hash = []\<rparr>)
        \<lparr>hit_url = ''https://example.org/docs/intro'',
         highlightResult = [''hierarchy.lvl0'' \<mapsto> \<lparr>hl_value = ''''\<rparr>],
         snippetResult = None\<rparr>
       = Inr \<lparr>title = Undefined, url = ''/docs/intro'', summary = [], breadcrumbs = []\<rparr>"
proof -
  let ?P = "\<lambda>s::string. Some \<lparr>pathname = ''/docs/intro'', search = [], hash = []\<rparr>"
  let ?H = "\<lparr>hit_url = ''https://example.org/docs/intro'',
           highlightResult = [''hierarchy.lvl0'' \<mapsto> \<lparr>hl_value = ''''\<rparr>],
           snippetResult = None\<rparr>"
  have none: "\<forall>l\<in>set levels. \<not> nonEmptyLevel ?H l"
    by code_simp
  have parsed: "?P (hit_url ?H) = Some \<lparr>pathname = ''/docs/intro'', search = [], hash = []\<rparr>"
    by simp
  note concl = no_level_gives_undefined_title
    [of ?H ?P "\<lparr>pathname = ''/docs/intro'', search = [], hash = []\<rparr>", OF none parsed]
  from concl have empty: "titlesOf ?H = []"
    by (rule conjunct1)
  have shaped: "shapeHit ?P ?H
       = Inr \<lparr>title = Undefined, url = ''/docs/intro'', summary = [], breadcrumbs = []\<rparr>"
    by (simp add: shapeHit_Some empty pop_def)
  from none have "filter (nonEmptyLevel ?H) levels = []"
    by (simp only: filter_empty_conv not_False_eq_True)
  with empty shaped show ?thesis
    by (intro conjI)
qed

end
